theory Spec2Isabelle
  imports Complex_Main "HOL-Library.AList"
begin

section \<open>Python values and failures\<close>

text \<open>
  Every exception the modelled code can raise is a value of \<open>error\<close>; a function that can
  raise returns \<open>error + 'a\<close>, with \<open>Inl\<close> for the raised exception.
  \<open>HTTPException\<close> carries the status code and the detail string; \<open>PyJWTError\<close>
  stands for the exception class of that name and all its subclasses, the string naming
  the subclass.
\<close>

datatype error =
    HTTPException int string
  | IndexError
  | KeyError string
  | TypeError
  | AssertionError
  | JSONDecodeError
  | ConnectionError
  | ValueError
  | PyJWTError string

text \<open>
  The values that travel through dictionaries and JSON bodies. A dictionary is an
  association list, looked up with \<open>map_of\<close>.
\<close>

datatype pyval =
    PyNone
  | PyBool bool
  | PyInt int
  | PyFloat real
  | PyStr string
  | PyList "pyval list"
  | PyDict "(string \<times> pyval) list"

text \<open>
  Subscripting a list with an integer, \<open>xs[i]\<close>. For \<open>0 \<le> i < len(xs)\<close> it is the
  element at \<open>i\<close>; for \<open>-len(xs) \<le> i < 0\<close> it is the element at \<open>len(xs) + i\<close>;
  every other index raises IndexError.
\<close>

definition py_getitem :: "'b list \<Rightarrow> int \<Rightarrow> error + 'b" where
  "py_getitem xs i =
     (if 0 \<le> i \<and> i < int (length xs) then Inr (xs ! nat i)
      else if i < 0 \<and> - int (length xs) \<le> i then Inr (xs ! nat (int (length xs) + i))
      else Inl IndexError)"

text \<open>\<open>dict.get(key)\<close>: the value, or None when the key is absent.\<close>

definition dict_get :: "(string \<times> pyval) list \<Rightarrow> string \<Rightarrow> pyval" where
  "dict_get dict key = (case map_of dict key of None \<Rightarrow> PyNone | Some v \<Rightarrow> v)"

text \<open>
  What an f-string puts in place of \<open>{v}\<close>: a string is inserted as it is, None prints as
  \<open>None\<close>. The rendering of the other values (numbers, lists, dictionaries) is the
  interpreter's \<open>str\<close> builtin, taken as the parameter \<open>render\<close>.
\<close>

definition py_format :: "(pyval \<Rightarrow> string) \<Rightarrow> pyval \<Rightarrow> string" where
  "py_format render v =
     (case v of PyStr s \<Rightarrow> s | PyNone \<Rightarrow> ''None'' | _ \<Rightarrow> render v)"

section \<open>The flat L2 index\<close>

text \<open>
  \<open>vector_store.py\<close> uses \<open>faiss.IndexFlatL2\<close>: an index of fixed dimension that keeps
  every added vector and answers a search by exact squared Euclidean distance.
  The library is not part of the repository; the model below follows its documented
  behaviour:
  \<^item> \<open>add\<close> and \<open>search\<close> assert that the vector has the index's dimension, \<open>search\<close>
    asserts \<open>k > 0\<close>;
  \<^item> \<open>search\<close> returns exactly \<open>k\<close> labels, nearest first; when the index holds fewer than
    \<open>k\<close> vectors the missing labels are \<open>-1\<close>.
  Vectors are lists of components of an ordered ring; among vectors at the same distance
  the one added first is ranked first.
\<close>

record 'a IndexFlatL2 =
  index_d :: nat
  index_xb :: "'a list list"

definition IndexFlatL2_new :: "nat \<Rightarrow> 'a IndexFlatL2" where
  "IndexFlatL2_new n = \<lparr>index_d = n, index_xb = []\<rparr>"

definition ntotal :: "'a IndexFlatL2 \<Rightarrow> nat" where
  "ntotal ix = length (index_xb ix)"

definition fvec_L2sqr :: "('a::linordered_idom) list \<Rightarrow> 'a list \<Rightarrow> 'a" where
  "fvec_L2sqr x y = sum_list (map (\<lambda>(a, b). (a - b) * (a - b)) (zip x y))"

definition index_add :: "'a IndexFlatL2 \<Rightarrow> 'a list \<Rightarrow> error + 'a IndexFlatL2" where
  "index_add ix x =
     (if length x \<noteq> index_d ix then Inl AssertionError
      else Inr (ix\<lparr>index_xb := index_xb ix @ [x]\<rparr>))"

definition index_search ::
  "('a::linordered_idom) IndexFlatL2 \<Rightarrow> 'a list \<Rightarrow> int \<Rightarrow> error + int list" where
  "index_search ix q k =
     (if length q \<noteq> index_d ix then Inl AssertionError
      else if k \<le> 0 then Inl AssertionError
      else
        let ranked = sort_key (\<lambda>i. fvec_L2sqr q (index_xb ix ! i)) [0..<ntotal ix];
            found = map int (take (nat k) ranked)
        in Inr (found @ replicate (nat k - length found) (- 1)))"

section \<open>The memory store\<close>

text \<open>
  \<open>class FAISSStore\<close> of \<open>vector_store.py\<close>. The sentence-embedding model is the field
  \<open>model\<close>: \<open>model s text\<close> is the row that \<open>self.model.encode([text])\<close> returns.
\<close>

record 'a FAISSStore =
  embedding_dim :: nat
  index :: "'a IndexFlatL2"
  texts :: "string list"
  model :: "string \<Rightarrow> 'a list"

definition FAISSStore_init :: "nat \<Rightarrow> (string \<Rightarrow> 'a list) \<Rightarrow> 'a FAISSStore" where
  "FAISSStore_init n encoder =
     \<lparr>embedding_dim = n, index = IndexFlatL2_new n, texts = [], model = encoder\<rparr>"

definition add_text :: "'a FAISSStore \<Rightarrow> string \<Rightarrow> error + 'a FAISSStore" where
  "add_text s text =
     (case index_add (index s) (model s text) of
        Inl e \<Rightarrow> Inl e
      | Inr ix \<Rightarrow> Inr (s\<lparr>index := ix, texts := texts s @ [text]\<rparr>))"

text \<open>The comprehension \<open>[self.texts[i] for i in indices[0] if i < len(self.texts)]\<close>:
  the labels are visited in order and the first failing read aborts it.\<close>

fun collect_texts :: "string list \<Rightarrow> int list \<Rightarrow> error + string list" where
  "collect_texts ts [] = Inr []"
| "collect_texts ts (i # rest) =
     (if i < int (length ts) then
        (case py_getitem ts i of
           Inl e \<Rightarrow> Inl e
         | Inr t \<Rightarrow>
             (case collect_texts ts rest of
                Inl e \<Rightarrow> Inl e
              | Inr found \<Rightarrow> Inr (t # found)))
      else collect_texts ts rest)"

definition search ::
  "('a::linordered_idom) FAISSStore \<Rightarrow> string \<Rightarrow> int \<Rightarrow> error + string list" where
  "search s query top_k =
     (case index_search (index s) (model s query) top_k of
        Inl e \<Rightarrow> Inl e
      | Inr labels \<Rightarrow> collect_texts (texts s) labels)"

text \<open>
  A sequence of calls on one store. Each call is made on the state the previous one left
  and yields what it returned (\<open>None\<close> for \<open>add_text\<close>, the texts found for
  \<open>search\<close>) or the exception it raised. A call that raises leaves the state as it
  found it: \<open>add_text\<close> raises before it appends, and \<open>search\<close> writes nothing.
\<close>

datatype store_call = Add string | Search string int

fun call ::
  "('a::linordered_idom) FAISSStore \<Rightarrow> store_call \<Rightarrow>
     'a FAISSStore \<times> (error + string list option)" where
  "call s (Add text) =
     (case add_text s text of Inl e \<Rightarrow> (s, Inl e) | Inr s' \<Rightarrow> (s', Inr None))"
| "call s (Search query top_k) =
     (case search s query top_k of Inl e \<Rightarrow> (s, Inl e) | Inr found \<Rightarrow> (s, Inr (Some found)))"

fun run ::
  "('a::linordered_idom) FAISSStore \<Rightarrow> store_call list \<Rightarrow>
     'a FAISSStore \<times> (error + string list option) list" where
  "run s [] = (s, [])"
| "run s (c # cs) =
     (let (s', r) = call s c; (s'', rs) = run s' cs in (s'', r # rs))"

fun is_add :: "store_call \<Rightarrow> bool" where
  "is_add (Add text) = True"
| "is_add (Search query top_k) = False"

text \<open>The encoder used in the concrete runs below: 384 components, as the default
  \<open>embedding_dim\<close>, all equal to the length of the text.\<close>

definition length_encoder :: "string \<Rightarrow> int list" where
  "length_encoder text = replicate 384 (int (length text))"

definition default_store :: "int FAISSStore" where
  "default_store = FAISSStore_init 384 length_encoder"

text \<open>The invariant of the store: one vector per text, every vector of the configured
  dimension, which is also the dimension of the index.\<close>

definition lockstep :: "'a FAISSStore \<Rightarrow> bool" where
  "lockstep s \<longleftrightarrow>
     ntotal (index s) = length (texts s) \<and>
     index_d (index s) = embedding_dim s \<and>
     list_all (\<lambda>v. length v = embedding_dim s) (index_xb (index s))"

section \<open>The weather tool\<close>

text \<open>
  \<open>OpenWeatherTool._run\<close> of \<open>langchain_integration.py\<close>. The HTTP request is the
  parameter \<open>requests_get\<close>, from the URL to the response or to the exception of a failed
  connection; \<open>json_body\<close> is what \<open>response.json()\<close> returns, \<open>None\<close> when the body
  is not JSON and the call raises.
\<close>

record response =
  status_code :: int
  json_body :: "pyval option"

text \<open>\<open>v[key]\<close> and \<open>v[i]\<close> on a decoded JSON value.\<close>

fun subscript_key :: "pyval \<Rightarrow> string \<Rightarrow> error + pyval" where
  "subscript_key (PyDict dict) key =
     (case map_of dict key of None \<Rightarrow> Inl (KeyError key) | Some v \<Rightarrow> Inr v)"
| "subscript_key v key = Inl TypeError"

fun subscript_index :: "pyval \<Rightarrow> int \<Rightarrow> error + pyval" where
  "subscript_index (PyList xs) i = py_getitem xs i"
| "subscript_index (PyStr s) i =
     (case py_getitem s i of Inl e \<Rightarrow> Inl e | Inr c \<Rightarrow> Inr (PyStr [c]))"
| "subscript_index (PyDict dict) i = Inl (KeyError ''0'')"
| "subscript_index v i = Inl TypeError"

definition and_then :: "error + 'b \<Rightarrow> ('b \<Rightarrow> error + 'c) \<Rightarrow> error + 'c" where
  "and_then r f = (case r of Inl e \<Rightarrow> Inl e | Inr v \<Rightarrow> f v)"

definition weather_url :: "string option \<Rightarrow> string \<Rightarrow> string" where
  "weather_url api_key query =
     ''http://api.openweathermap.org/data/2.5/weather?q='' @ query @ ''&appid=''
       @ (case api_key of None \<Rightarrow> ''None'' | Some key \<Rightarrow> key) @ ''&units=metric''"

text \<open>The source file spells the unit with the four bytes C3 82 C2 B0 before the \<open>C\<close>.\<close>

definition weather_sentence :: "string \<Rightarrow> string \<Rightarrow> string \<Rightarrow> string" where
  "weather_sentence query weather_desc temp =
     ''In '' @ query @ '', the weather is '' @ [CHR 0x27] @ weather_desc @ [CHR 0x27]
       @ '' with a temperature of '' @ temp @ [CHR 0xC3, CHR 0x82, CHR 0xC2, CHR 0xB0] @ ''C.''"

definition unable_sentence :: "string \<Rightarrow> string" where
  "unable_sentence query = ''Unable to fetch weather data for '' @ query @ ''.''"

definition OpenWeatherTool_run ::
  "(string \<Rightarrow> error + response) \<Rightarrow> string option \<Rightarrow> (pyval \<Rightarrow> string) \<Rightarrow>
     string \<Rightarrow> error + string" where
  "OpenWeatherTool_run requests_get api_key render query =
     and_then (requests_get (weather_url api_key query)) (\<lambda>response.
       if status_code response = 200 then
         and_then (case json_body response of None \<Rightarrow> Inl JSONDecodeError | Some v \<Rightarrow> Inr v)
           (\<lambda>data.
         and_then (subscript_key data ''weather'') (\<lambda>weather.
         and_then (subscript_index weather 0) (\<lambda>first.
         and_then (subscript_key first ''description'') (\<lambda>weather_desc.
         and_then (subscript_key data ''main'') (\<lambda>main.
         and_then (subscript_key main ''temp'') (\<lambda>temp.
           Inr (weather_sentence query (py_format render weather_desc)
                  (py_format render temp))))))))
       else Inr (unable_sentence query))"

section \<open>The chat orchestrator\<close>

text \<open>
  \<open>process_query\<close> of \<open>langchain_integration.py\<close>. The agent is the parameter
  \<open>agent_run\<close>, from the prompt to the answer or to the exception the agent raised.
  The global store is passed in, and returned as \<open>add_text\<close> left it; when
  \<open>process_query\<close> raises, the store is as it was.
\<close>

definition profile_str :: "(pyval \<Rightarrow> string) \<Rightarrow> (string \<times> pyval) list \<Rightarrow> string" where
  "profile_str render user_profile =
     ''Email: '' @ py_format render (dict_get user_profile ''email'') @ '', ''
       @ ''Full Name: '' @ py_format render (dict_get user_profile ''full_name'') @ '', ''
       @ ''Preferences: '' @ py_format render (dict_get user_profile ''travel_preferences'')"

definition faiss_context :: "string list \<Rightarrow> string" where
  "faiss_context faiss_results =
     (case faiss_results of [] \<Rightarrow> [] | r # rest \<Rightarrow> ''Relevant historical data: '' @ r)"

definition pre_prompt ::
  "(pyval \<Rightarrow> string) \<Rightarrow> (string \<times> pyval) list \<Rightarrow> string \<Rightarrow> string list \<Rightarrow> string" where
  "pre_prompt render user_profile query faiss_results =
     ''User Profile: '' @ profile_str render user_profile @ [CHR 0x0A]
       @ ''User Query: '' @ query @ [CHR 0x0A]
       @ faiss_context faiss_results @ [CHR 0x0A]
       @ ''Using the above information, fetch relevant weather data and travel details. ''
       @ ''Provide a detailed travel recommendation with citations.''"

definition process_query ::
  "(string \<Rightarrow> error + string) \<Rightarrow> (pyval \<Rightarrow> string) \<Rightarrow> ('a::linordered_idom) FAISSStore \<Rightarrow>
     string \<Rightarrow> (string \<times> pyval) list \<Rightarrow> error + string \<times> 'a FAISSStore" where
  "process_query agent_run render faiss_store query user_profile =
     and_then (search faiss_store query 1) (\<lambda>faiss_results.
     and_then (agent_run (pre_prompt render user_profile query faiss_results)) (\<lambda>response.
     and_then (add_text faiss_store response) (\<lambda>faiss_store'.
       Inr (response, faiss_store'))))"

section \<open>Identity and session\<close>

text \<open>
  \<open>main.py\<close>. \<open>UserProfile\<close> is the pydantic model of that name, its field \<open>id\<close> written
  \<open>profile_id\<close>; an absent \<open>id\<close> or \<open>full_name\<close> is \<open>None\<close>. A row of the table \<open>users\<close>
  has the same columns and the password hash. The hosted table is the list of its rows,
  and \<open>supabase.table("users").select("*").eq("email", v).execute().data\<close> is the list
  of the rows whose email is \<open>v\<close>.
\<close>

record UserProfile =
  profile_id :: "string option"
  email :: string
  full_name :: "string option"
  travel_preferences :: "(string \<times> pyval) list"

record user_row = UserProfile +
  hashed_password :: string

definition select_eq_email :: "user_row list \<Rightarrow> pyval \<Rightarrow> user_row list" where
  "select_eq_email users v = filter (\<lambda>row. PyStr (email row) = v) users"

definition ALGORITHM :: string where
  "ALGORITHM = ''HS256''"

definition ACCESS_TOKEN_EXPIRE_MINUTES :: int where
  "ACCESS_TOKEN_EXPIRE_MINUTES = 30"

text \<open>
  Times are whole POSIX seconds, the unit of the \<open>exp\<close> claim of a token;
  \<open>timedelta_minutes m\<close> is \<open>timedelta(minutes=m)\<close>.
\<close>

definition timedelta_minutes :: "int \<Rightarrow> int" where
  "timedelta_minutes m = 60 * m"

text \<open>
  The \<open>jwt\<close> library is not part of the repository. A token is modelled by what it
  carries: the payload, the key it was signed with and the algorithm; any other string
  presented as a token is \<open>Malformed\<close>. \<open>jwt_decode\<close> follows the library: the algorithm
  must be among the accepted ones, the signature must verify under the key, and an
  \<open>exp\<close> claim must be an integer later than the current time. Each failure is a subclass
  of \<open>PyJWTError\<close>.
\<close>

datatype jwt = Jwt "(string \<times> pyval) list" string string | Malformed string

definition jwt_encode :: "(string \<times> pyval) list \<Rightarrow> string \<Rightarrow> string \<Rightarrow> jwt" where
  "jwt_encode payload key algorithm = Jwt payload key algorithm"

fun validate_exp :: "(string \<times> pyval) list \<Rightarrow> int \<Rightarrow> error + (string \<times> pyval) list" where
  "validate_exp payload now =
     (case map_of payload ''exp'' of
        None \<Rightarrow> Inr payload
      | Some (PyInt e) \<Rightarrow>
          if e \<le> now then Inl (PyJWTError ''ExpiredSignatureError'') else Inr payload
      | Some v \<Rightarrow> Inl (PyJWTError ''DecodeError''))"

fun jwt_decode :: "jwt \<Rightarrow> string \<Rightarrow> string list \<Rightarrow> int \<Rightarrow> error + (string \<times> pyval) list" where
  "jwt_decode (Malformed s) key algorithms now = Inl (PyJWTError ''DecodeError'')"
| "jwt_decode (Jwt payload signing_key algorithm) key algorithms now =
     (if algorithm \<notin> set algorithms then Inl (PyJWTError ''InvalidAlgorithmError'')
      else if signing_key \<noteq> key then Inl (PyJWTError ''InvalidSignatureError'')
      else validate_exp payload now)"

text \<open>
  \<open>bcrypt.checkpw\<close> is the parameter \<open>checkpw\<close>: it returns whether the password
  matches the hash, or raises. The library raises ValueError on a hash it cannot parse
  and, from version 5, on a password longer than 72 bytes. \<open>verify_password\<close> calls it
  with no handler, so what it raises leaves \<open>verify_password\<close> too.
\<close>

definition verify_password ::
  "(string \<Rightarrow> string \<Rightarrow> error + bool) \<Rightarrow> string \<Rightarrow> string \<Rightarrow> error + bool" where
  "verify_password checkpw plain_password hashed = checkpw plain_password hashed"

text \<open>\<open>create_access_token\<close>: \<open>utcnow\<close> is the reading of the clock; a zero
  \<open>expires_delta\<close> is falsy and gives the default lifetime, as an absent one does.\<close>

definition create_access_token ::
  "string \<Rightarrow> int \<Rightarrow> (string \<times> pyval) list \<Rightarrow> int option \<Rightarrow> jwt" where
  "create_access_token SECRET_KEY utcnow data expires_delta =
     (let to_encode = data;
          expire = utcnow +
            (case expires_delta of
               None \<Rightarrow> timedelta_minutes ACCESS_TOKEN_EXPIRE_MINUTES
             | Some delta \<Rightarrow>
                 if delta \<noteq> 0 then delta else timedelta_minutes ACCESS_TOKEN_EXPIRE_MINUTES);
          to_encode = AList.update ''exp'' (PyInt expire) to_encode
      in jwt_encode to_encode SECRET_KEY ALGORITHM)"

definition credentials_exception :: error where
  "credentials_exception = HTTPException 401 ''Could not validate credentials''"

definition get_current_user :: "user_row list \<Rightarrow> string \<Rightarrow> int \<Rightarrow> jwt \<Rightarrow> error + user_row" where
  "get_current_user users SECRET_KEY now token =
     (case jwt_decode token SECRET_KEY [ALGORITHM] now of
        Inl (PyJWTError name) \<Rightarrow> Inl credentials_exception
      | Inl e \<Rightarrow> Inl e
      | Inr payload \<Rightarrow>
          (case dict_get payload ''sub'' of
             PyNone \<Rightarrow> Inl credentials_exception
           | sub \<Rightarrow>
               (case select_eq_email users sub of
                  [] \<Rightarrow> Inl credentials_exception
                | row # rest \<Rightarrow> Inr row)))"

record Token =
  access_token :: jwt
  token_type :: string

definition login ::
  "user_row list \<Rightarrow> (string \<Rightarrow> string \<Rightarrow> error + bool) \<Rightarrow> string \<Rightarrow> int \<Rightarrow> string \<Rightarrow>
     string \<Rightarrow> error + Token" where
  "login users checkpw SECRET_KEY utcnow username password =
     (case select_eq_email users (PyStr username) of
        [] \<Rightarrow> Inl (HTTPException 400 ''Incorrect email or password'')
      | user # rest \<Rightarrow>
          (case verify_password checkpw password (hashed_password user) of
             Inl e \<Rightarrow> Inl e
           | Inr verified \<Rightarrow>
               if \<not> verified
               then Inl (HTTPException 400 ''Incorrect email or password'')
               else
                 let access_token_expires = timedelta_minutes ACCESS_TOKEN_EXPIRE_MINUTES;
                     token = create_access_token SECRET_KEY utcnow
                               [(''sub'', PyStr (email user))] (Some access_token_expires)
                 in Inr \<lparr>access_token = token, token_type = ''bearer''\<rparr>))"

text \<open>The protected endpoints run the dependency \<open>get_current_user\<close> on the bearer token
  first; when it raises, the handler is not run.\<close>

definition read_profile :: "user_row list \<Rightarrow> string \<Rightarrow> int \<Rightarrow> jwt \<Rightarrow> error + user_row" where
  "read_profile users SECRET_KEY now token =
     (case get_current_user users SECRET_KEY now token of
        Inl e \<Rightarrow> Inl e
      | Inr current_user \<Rightarrow> Inr current_user)"

text \<open>
  \<open>supabase.table("users").update({...}).eq("email", e).execute()\<close>: the two columns are
  written in every row whose email is \<open>e\<close>.
\<close>

definition update_eq_email ::
  "user_row list \<Rightarrow> string \<Rightarrow> string option \<Rightarrow> (string \<times> pyval) list \<Rightarrow> user_row list" where
  "update_eq_email users e name preferences =
     map (\<lambda>row. if email row = e
                then row\<lparr>full_name := name, travel_preferences := preferences\<rparr>
                else row) users"

text \<open>
  \<open>update_profile\<close> returns the table it leaves and the response. \<open>response_error\<close> says
  whether the store reported an error for the update, in which case the table is as
  before.
\<close>

definition update_profile ::
  "user_row list \<Rightarrow> string \<Rightarrow> int \<Rightarrow> bool \<Rightarrow> jwt \<Rightarrow> UserProfile \<Rightarrow>
     user_row list \<times> (error + user_row)" where
  "update_profile users SECRET_KEY now response_error token updated_profile =
     (case get_current_user users SECRET_KEY now token of
        Inl e \<Rightarrow> (users, Inl e)
      | Inr current_user \<Rightarrow>
          if response_error then (users, Inl (HTTPException 500 ''Profile update failed''))
          else
            let users' = update_eq_email users (email current_user)
                           (full_name updated_profile) (travel_preferences updated_profile)
            in (users', py_getitem (select_eq_email users' (PyStr (email current_user))) 0))"

definition chat ::
  "user_row list \<Rightarrow> string \<Rightarrow> int \<Rightarrow> jwt \<Rightarrow> (string \<Rightarrow> error + string) \<Rightarrow> (pyval \<Rightarrow> string) \<Rightarrow>
     ('a::linordered_idom) FAISSStore \<Rightarrow> string \<Rightarrow> error + string \<times> 'a FAISSStore" where
  "chat users SECRET_KEY now token agent_run render faiss_store query =
     (case get_current_user users SECRET_KEY now token of
        Inl e \<Rightarrow> Inl e
      | Inr current_user \<Rightarrow>
          if query = [] then Inl (HTTPException 400 ''Query is required.'')
          else
            let user_profile =
                  [(''email'', PyStr (email current_user)),
                   (''full_name'',
                      case full_name current_user of None \<Rightarrow> PyNone | Some name \<Rightarrow> PyStr name),
                   (''travel_preferences'', PyDict (travel_preferences current_user))]
            in process_query agent_run render faiss_store query user_profile)"

text \<open>The table, password check and renderer used in the concrete runs below.\<close>

definition alice :: user_row where
  "alice = \<lparr>profile_id = Some ''1'', email = ''a@x.com'', full_name = Some ''A'',
     travel_preferences = [], hashed_password = ''hash-of-pw''\<rparr>"

definition bob :: user_row where
  "bob = \<lparr>profile_id = Some ''2'', email = ''b@x.com'', full_name = None,
     travel_preferences = [(''pace'', PyStr ''slow'')], hashed_password = ''hash-of-secret''\<rparr>"

definition prefix_checkpw :: "string \<Rightarrow> string \<Rightarrow> error + bool" where
  "prefix_checkpw plain_password hashed =
     (if 72 < length plain_password then Inl ValueError
      else Inr (hashed = ''hash-of-'' @ plain_password))"

definition long_password :: string where
  "long_password = replicate 73 (CHR ''a'')"

definition no_render :: "pyval \<Rightarrow> string" where
  "no_render v = ''?''"

definition paris_response :: response where
  "paris_response = \<lparr>status_code = 200, json_body = Some (PyDict
     [(''weather'', PyList [PyDict [(''description'', PyStr ''clear sky'')]]),
      (''main'', PyDict [(''temp'', PyStr ''21'')])])\<rparr>"

definition alice_token :: jwt where
  "alice_token = Jwt [(''sub'', PyStr ''a@x.com''), (''exp'', PyInt 2800)] ''k'' ''HS256''"

definition new_profile :: UserProfile where
  "new_profile = \<lparr>profile_id = Some ''99'', email = ''mallory@x.com'',
     full_name = Some ''Al'', travel_preferences = [(''seat'', PyStr ''aisle'')]\<rparr>"

section \<open>Properties of the memory store\<close>

lemma py_getitem_member: "py_getitem xs i = Inr t \<Longrightarrow> t \<in> set xs"
  by (auto simp: py_getitem_def Let_def split: if_splits)

lemma collect_texts_length: "collect_texts ts ls = Inr found \<Longrightarrow> length found \<le> length ls"
  by (induction ls arbitrary: found) (auto split: if_splits sum.splits)

lemma collect_texts_member: "collect_texts ts ls = Inr found \<Longrightarrow> set found \<subseteq> set ts"
  by (induction ls arbitrary: found) (auto split: if_splits sum.splits dest: py_getitem_member)

lemma index_search_length: "index_search ix q k = Inr ls \<Longrightarrow> int (length ls) = k"
  by (auto simp: index_search_def Let_def split: if_splits)

text \<open>A search that returns gives at most \<open>top_k\<close> texts, all of them stored.\<close>

lemma search_at_most_k: "search s q k = Inr found \<Longrightarrow> int (length found) \<le> k"
  by (auto simp: search_def split: sum.splits dest!: index_search_length collect_texts_length)

lemma search_results_stored: "search s q k = Inr found \<Longrightarrow> set found \<subseteq> set (texts s)"
  by (auto simp: search_def split: sum.splits dest: collect_texts_member)

text \<open>
  On a store that holds nothing, every label the index returns is \<open>-1\<close>; \<open>-1\<close> is below
  the length of the text list, so the comprehension reads \<open>self.texts[-1]\<close> of the empty
  list. This holds for every encoder of the index's dimension.
\<close>

lemma search_empty_store:
  "length (enc q) = n \<Longrightarrow> 0 < k \<Longrightarrow> search (FAISSStore_init n enc) q k = Inl IndexError"
  by (cases "nat k")
     (auto simp: search_def FAISSStore_init_def IndexFlatL2_new_def index_search_def
        ntotal_def py_getitem_def Let_def)

lemma call_model: "model (fst (call s c)) = model s"
  by (cases c) (auto simp: add_text_def index_add_def split: sum.splits if_splits)

lemma call_index_d: "index_d (index (fst (call s c))) = index_d (index s)"
  by (cases c) (auto simp: add_text_def index_add_def split: sum.splits if_splits)

lemma call_size:
  "\<forall>t. length (model s t) = index_d (index s) \<Longrightarrow>
   length (texts (fst (call s c))) = length (texts s) + (if is_add c then 1 else 0)"
  by (cases c) (auto simp: add_text_def index_add_def split: sum.splits if_splits)

lemma run_size:
  "\<forall>t. length (model s t) = index_d (index s) \<Longrightarrow>
   length (texts (fst (run s cs))) = length (texts s) + length (filter is_add cs)"
proof (induction cs arbitrary: s)
  case Nil
  show ?case by simp
next
  case (Cons c cs)
  let ?s = "fst (call s c)"
  have fits: "\<forall>t. length (model ?s t) = index_d (index ?s)"
    using Cons.prems by (simp add: call_model call_index_d)
  have "fst (run s (c # cs)) = fst (run ?s cs)"
    by (simp add: case_prod_unfold Let_def)
  then show ?case
    using Cons.IH [OF fits] call_size [OF Cons.prems, of c] by simp
qed

lemma lockstep_init: "lockstep (FAISSStore_init n enc)"
  by (simp add: lockstep_def FAISSStore_init_def IndexFlatL2_new_def ntotal_def)

lemma lockstep_call: "lockstep s \<Longrightarrow> lockstep (fst (call s c))"
  by (cases c)
     (auto simp: lockstep_def add_text_def index_add_def ntotal_def split: sum.splits if_splits)

lemma lockstep_run: "lockstep s \<Longrightarrow> lockstep (fst (run s cs))"
proof (induction cs arbitrary: s)
  case Nil
  then show ?case by simp
next
  case (Cons c cs)
  have "fst (run s (c # cs)) = fst (run (fst (call s c)) cs)"
    by (simp add: case_prod_unfold Let_def)
  then show ?case
    using Cons.IH [OF lockstep_call [OF Cons.prems]] by simp
qed

lemma add_text_effect:
  "add_text s t = Inr s' \<Longrightarrow>
     index_xb (index s') = index_xb (index s) @ [model s t] \<and>
     length (model s t) = index_d (index s) \<and>
     texts s' = texts s @ [t]"
  by (auto simp: add_text_def index_add_def split: sum.splits if_splits)

text \<open>
  C1. Round trip: on the default store, after \<open>add_text("hello")\<close> the call
  \<open>search("hello", 1)\<close> returns \<open>["hello"]\<close>. The second half of the claim, that a search
  on the empty store returns an empty list without raising, fails: the call raises
  IndexError.
\<close>

theorem search_roundtrip_and_empty_store:
  "(\<exists>s. add_text default_store ''hello'' = Inr s \<and> search s ''hello'' 1 = Inr [''hello''])
   \<and> search default_store ''hello'' 1 = Inl IndexError"
  by (simp add: default_store_def FAISSStore_init_def IndexFlatL2_new_def add_text_def
        index_add_def length_encoder_def search_def index_search_def ntotal_def py_getitem_def)

text \<open>
  C2. A search never returns more texts than are stored: this fails on a store of one
  text searched with \<open>top_k = 3\<close>, where the two missing labels \<open>-1\<close> pass the bound
  check and read the last text again, so three results come back from one stored text.
\<close>

theorem search_exceeds_store_size:
  "\<exists>s. add_text default_store ''a'' = Inr s \<and> length (texts s) = 1
     \<and> search s ''a'' 3 = Inr [''a'', ''a'', ''a'']"
  by (simp add: default_store_def FAISSStore_init_def IndexFlatL2_new_def add_text_def
        index_add_def length_encoder_def search_def index_search_def ntotal_def py_getitem_def
        eval_nat_numeral)

text \<open>
  C3. Append-only: with an encoder of the configured dimension, the number of texts in
  a new store after any sequence of calls is the number of \<open>add_text\<close> calls in it,
  whatever searches are interleaved and whatever they return or raise; a search leaves
  the store as it is.
\<close>

theorem store_size_counts_adds:
  "\<forall>t. length (enc t) = n \<Longrightarrow>
   length (texts (fst (run (FAISSStore_init n enc) cs))) = length (filter is_add cs)
   \<and> fst (call s (Search q k)) = s"
  using run_size [of "FAISSStore_init n enc" cs]
  by (simp add: FAISSStore_init_def IndexFlatL2_new_def split: sum.splits)

theorem store_size_counts_adds_witness:
  "(\<forall>t. length (length_encoder t) = 384) \<and>
   length (texts (fst (run default_store
      [Search ''a'' 1, Add ''x'', Search ''x'' 2, Add ''y'']))) = 2
   \<and> fst (call default_store (Search ''q'' 1)) = default_store"
  using store_size_counts_adds [of length_encoder 384
      "[Search ''a'' 1, Add ''x'', Search ''x'' 2, Add ''y'']" default_store "''q''" 1]
  by (simp add: length_encoder_def default_store_def)

text \<open>
  C10. Lockstep: in a store reached from a new one by any sequence of calls, the index
  holds as many vectors as there are texts, each of the configured dimension; an
  \<open>add_text\<close> that returns has put exactly one vector of that dimension at the end of
  the index and exactly one text at the end of the list; a search changes neither.
\<close>

theorem index_and_texts_in_lockstep:
  "lockstep (fst (run (FAISSStore_init n enc) cs))
   \<and> (\<forall>s'. lockstep s \<and> add_text s t = Inr s' \<longrightarrow>
         lockstep s'
         \<and> ntotal (index s') = ntotal (index s) + 1
         \<and> length (texts s') = length (texts s) + 1
         \<and> last (index_xb (index s')) = model s t
         \<and> length (model s t) = embedding_dim s
         \<and> last (texts s') = t)
   \<and> fst (call s (Search q k)) = s"
proof (intro conjI allI impI)
  show "lockstep (fst (run (FAISSStore_init n enc) cs))"
    by (rule lockstep_run [OF lockstep_init])
next
  fix s'
  assume a: "lockstep s \<and> add_text s t = Inr s'"
  then have "fst (call s (Add t)) = s'" by simp
  with a lockstep_call [of s "Add t"] show "lockstep s'" by simp
  from a add_text_effect [of s t s']
  show "ntotal (index s') = ntotal (index s) + 1"
    and "length (texts s') = length (texts s) + 1"
    and "last (index_xb (index s')) = model s t"
    and "length (model s t) = embedding_dim s"
    and "last (texts s') = t"
    by (simp_all add: ntotal_def lockstep_def)
next
  show "fst (call s (Search q k)) = s"
    by (simp split: sum.splits)
qed

theorem index_and_texts_in_lockstep_witness:
  "lockstep (fst (run default_store [Add ''x'', Search ''x'' 2, Add ''y'']))
   \<and> lockstep default_store
   \<and> (\<exists>s'. add_text default_store ''x'' = Inr s'
         \<and> ntotal (index s') = 1 \<and> texts s' = [''x'']
         \<and> length (model default_store ''x'') = 384)
   \<and> fst (call default_store (Search ''q'' 1)) = default_store"
proof -
  have ls: "lockstep default_store"
    by (simp add: default_store_def lockstep_init)
  obtain s' where s': "add_text default_store ''x'' = Inr s'"
    by (simp add: default_store_def FAISSStore_init_def IndexFlatL2_new_def add_text_def
          index_add_def length_encoder_def)
  note inst = index_and_texts_in_lockstep [of 384 length_encoder
      "[Add ''x'', Search ''x'' 2, Add ''y'']" default_store "''x''" "''q''" 1]
  from inst have run_ok: "lockstep (fst (run default_store [Add ''x'', Search ''x'' 2, Add ''y'']))"
    by (simp only: default_store_def)
  from inst ls s' have eff: "ntotal (index s') = ntotal (index default_store) + 1
      \<and> last (texts s') = ''x'' \<and> length (model default_store ''x'') = embedding_dim default_store"
    by blast
  from inst have fr: "fst (call default_store (Search ''q'' 1)) = default_store"
    by blast
  have "texts s' = [''x'']"
    using add_text_effect [OF s'] by (simp add: default_store_def FAISSStore_init_def)
  moreover have "ntotal (index default_store) = 0" "embedding_dim default_store = 384"
    by (simp_all add: default_store_def FAISSStore_init_def IndexFlatL2_new_def ntotal_def)
  ultimately show ?thesis
    using run_ok ls s' eff fr by simp
qed

section \<open>Properties of the orchestrator and the weather tool\<close>

text \<open>
  When the store finds something, the agent answers and the encoder has the index's
  dimension, \<open>process_query\<close> returns the agent's answer as it is and appends it to
  the store once; the search was for one text, so at most one snippet is in the prompt.
\<close>

lemma process_query_returns:
  assumes "search s q 1 = Inr rs"
    and "agent_run (pre_prompt render prof q rs) = Inr resp"
    and "length (model s resp) = index_d (index s)"
  shows "\<exists>s'. process_query agent_run render s q prof = Inr (resp, s')
           \<and> texts s' = texts s @ [resp] \<and> length rs \<le> 1"
  using assms search_at_most_k [OF assms(1)]
  by (simp add: process_query_def and_then_def add_text_def index_add_def)

text \<open>
  C4. \<open>process_query\<close> returns the agent's response and grows the store by one on every
  call: this fails on the first call, when the store is still empty. The search raises
  IndexError before the agent is run, whatever the query, the profile and the agent.
\<close>

theorem process_query_on_empty_store:
  "process_query agent_run render default_store query user_profile = Inl IndexError"
  using search_empty_store [of length_encoder query 384 1]
  by (simp add: process_query_def and_then_def default_store_def length_encoder_def)

text \<open>
  C5, as amended. When the provider answers with a status other than 200, the tool
  returns the sentence \<open>Unable to fetch weather data for <location>.\<close>; when it answers
  200 with a JSON body that has \<open>weather[0].description\<close> and \<open>main.temp\<close>, the tool
  returns the sentence built from the two.
\<close>

theorem weather_tool_by_status:
  assumes "requests_get (weather_url api_key query) = Inr resp"
  shows "(status_code resp \<noteq> 200 \<longrightarrow>
            OpenWeatherTool_run requests_get api_key render query = Inr (unable_sentence query))
       \<and> (status_code resp = 200 \<and> json_body resp = Some data
            \<and> subscript_key data ''weather'' = Inr weather
            \<and> subscript_index weather 0 = Inr first
            \<and> subscript_key first ''description'' = Inr weather_desc
            \<and> subscript_key data ''main'' = Inr main
            \<and> subscript_key main ''temp'' = Inr temp \<longrightarrow>
            OpenWeatherTool_run requests_get api_key render query =
              Inr (weather_sentence query (py_format render weather_desc)
                     (py_format render temp)))"
  using assms by (simp add: OpenWeatherTool_run_def and_then_def)

theorem weather_tool_by_status_witness:
  "OpenWeatherTool_run (\<lambda>url. Inr \<lparr>status_code = 404, json_body = None\<rparr>) None no_render
      ''Paris'' = Inr ''Unable to fetch weather data for Paris.''
   \<and> OpenWeatherTool_run (\<lambda>url. Inr paris_response) None no_render ''Paris''
     = Inr (weather_sentence ''Paris'' ''clear sky'' ''21'')"
  using weather_tool_by_status [where requests_get = "\<lambda>url. Inr \<lparr>status_code = 404, json_body = None\<rparr>"
          and api_key = None and query = "''Paris''"
          and resp = "\<lparr>status_code = 404, json_body = None\<rparr>" and render = no_render]
        weather_tool_by_status [where requests_get = "\<lambda>url. Inr paris_response"
          and api_key = None and query = "''Paris''" and resp = paris_response
          and render = no_render
          and data = "PyDict [(''weather'', PyList [PyDict [(''description'', PyStr ''clear sky'')]]),
                              (''main'', PyDict [(''temp'', PyStr ''21'')])]"
          and weather = "PyList [PyDict [(''description'', PyStr ''clear sky'')]]"
          and first = "PyDict [(''description'', PyStr ''clear sky'')]"
          and weather_desc = "PyStr ''clear sky''"
          and main = "PyDict [(''temp'', PyStr ''21'')]" and temp = "PyStr ''21''"]
  by (simp add: paris_response_def unable_sentence_def py_getitem_def py_format_def)

text \<open>
  C5 as stated fails: a response with status 200 whose JSON body is the empty object
  makes the tool raise KeyError instead of returning a sentence.
\<close>

theorem weather_tool_status_200_counterexample:
  "OpenWeatherTool_run (\<lambda>url. Inr \<lparr>status_code = 200, json_body = Some (PyDict [])\<rparr>)
     None no_render ''Paris'' = Inl (KeyError ''weather'')"
  by (simp add: OpenWeatherTool_run_def and_then_def)

section \<open>Properties of login and tokens\<close>

text \<open>
  A login that fails either fails with status 400 and the detail
  \<open>Incorrect email or password\<close>, or with what the password check raised; the second
  can only happen for an email that is in the table, since the check is not reached
  otherwise.
\<close>

lemma login_failure_cases:
  "login users checkpw key now username password = Inl e \<Longrightarrow>
     e = HTTPException 400 ''Incorrect email or password''
     \<or> (\<exists>row rest. select_eq_email users (PyStr username) = row # rest
           \<and> checkpw password (hashed_password row) = Inl e)"
  by (auto simp: login_def verify_password_def Let_def split: list.splits sum.splits if_splits)

text \<open>When the password check returns, an unknown email and a known email with a password
  that does not match give the same response.\<close>

lemma login_failure_same_when_check_returns:
  "select_eq_email users1 (PyStr u1) = [] \<Longrightarrow>
   select_eq_email users2 (PyStr u2) = row # rest \<Longrightarrow>
   checkpw p2 (hashed_password row) = Inr False \<Longrightarrow>
     login users1 checkpw key now1 u1 p1
       = Inl (HTTPException 400 ''Incorrect email or password'')
     \<and> login users2 checkpw key now2 u2 p2 = login users1 checkpw key now1 u1 p1"
  by (simp add: login_def verify_password_def)

text \<open>
  C6. A failing login gives the same 400 response whether the email exists or not: this
  fails for a password that makes the password check raise. With a password of 73
  bytes, a login with an email that is not in the table gets the 400 response, and a
  login with an email that is in the table ends in the ValueError of the check, which
  no handler catches and the server answers with status 500.
\<close>

theorem login_distinguishes_known_email:
  "login [alice, bob] prefix_checkpw ''k'' 100 ''nobody@x.com'' long_password
      = Inl (HTTPException 400 ''Incorrect email or password'')
   \<and> login [alice, bob] prefix_checkpw ''k'' 100 ''a@x.com'' long_password = Inl ValueError"
  by (simp add: login_def select_eq_email_def alice_def bob_def prefix_checkpw_def
        verify_password_def long_password_def)

text \<open>
  C7. When the first row with the given email has a hash that the password verifies
  against, login returns a bearer token; decoded with the server's key at any time
  before its expiry, the token's \<open>sub\<close> is that row's email (the email given) and its
  \<open>exp\<close> is the time of issue plus 30 minutes.
\<close>

theorem login_token_claims:
  assumes "select_eq_email users (PyStr username) = row # rest"
    and "checkpw password (hashed_password row) = Inr True"
  shows "\<exists>tok. login users checkpw key now username password = Inr tok
           \<and> token_type tok = ''bearer''
           \<and> email row = username
           \<and> (\<forall>t. t < now + 30 * 60 \<longrightarrow>
                 (\<exists>payload. jwt_decode (access_token tok) key [ALGORITHM] t = Inr payload
                    \<and> dict_get payload ''sub'' = PyStr (email row)
                    \<and> dict_get payload ''exp'' = PyInt (now + 30 * 60)))"
proof -
  have "row \<in> set (select_eq_email users (PyStr username))"
    using assms(1) by simp
  then have "email row = username"
    by (simp add: select_eq_email_def)
  then show ?thesis
    using assms
    by (simp add: login_def verify_password_def create_access_token_def jwt_encode_def
          timedelta_minutes_def ACCESS_TOKEN_EXPIRE_MINUTES_def dict_get_def Let_def)
qed

theorem login_token_claims_witness:
  "select_eq_email [alice, bob] (PyStr ''a@x.com'') = [alice]
   \<and> prefix_checkpw ''pw'' (hashed_password alice) = Inr True
   \<and> (\<exists>tok. login [alice, bob] prefix_checkpw ''k'' 1000 ''a@x.com'' ''pw'' = Inr tok
         \<and> (\<exists>payload. jwt_decode (access_token tok) ''k'' [ALGORITHM] 1500 = Inr payload
               \<and> dict_get payload ''sub'' = PyStr ''a@x.com''
               \<and> dict_get payload ''exp'' = PyInt 2800))"
proof -
  have sel: "select_eq_email [alice, bob] (PyStr ''a@x.com'') = alice # []"
    by (simp add: select_eq_email_def alice_def bob_def)
  have pw: "prefix_checkpw ''pw'' (hashed_password alice) = Inr True"
    by (simp add: prefix_checkpw_def alice_def)
  obtain tok where tok: "login [alice, bob] prefix_checkpw ''k'' 1000 ''a@x.com'' ''pw'' = Inr tok"
    and dec: "\<forall>t. t < 1000 + 30 * 60 \<longrightarrow>
                 (\<exists>payload. jwt_decode (access_token tok) ''k'' [ALGORITHM] t = Inr payload
                    \<and> dict_get payload ''sub'' = PyStr (email alice)
                    \<and> dict_get payload ''exp'' = PyInt (1000 + 30 * 60))"
    using login_token_claims [where users = "[alice, bob]" and username = "''a@x.com''"
        and row = alice and rest = "[]" and checkpw = prefix_checkpw and password = "''pw''"
        and key = "''k''" and now = 1000] sel pw
    by blast
  from dec have "\<exists>payload. jwt_decode (access_token tok) ''k'' [ALGORITHM] 1500 = Inr payload
                    \<and> dict_get payload ''sub'' = PyStr (email alice)
                    \<and> dict_get payload ''exp'' = PyInt (1000 + 30 * 60)"
    by simp
  then show ?thesis
    using sel pw tok by (simp add: alice_def)
qed

text \<open>A token whose \<open>exp\<close> claim is in the past never decodes: whichever check it fails
  first, the failure is a \<open>PyJWTError\<close>.\<close>

lemma expired_decode:
  "map_of payload ''exp'' = Some (PyInt e) \<Longrightarrow> e < now \<Longrightarrow>
   \<exists>name. jwt_decode (Jwt payload k alg) key algs now = Inl (PyJWTError name)"
  by simp

text \<open>
  C8. A token whose embedded expiry is before the current time is rejected with 401 by
  the profile read, the profile update (which leaves the table as it is) and the chat
  endpoint, whatever the table, the key it was signed with and the store hold.
\<close>

theorem expired_token_rejected:
  assumes "map_of payload ''exp'' = Some (PyInt e)" and "e < now"
  shows "read_profile users key now (Jwt payload k alg)
           = Inl (HTTPException 401 ''Could not validate credentials'')
     \<and> update_profile users key now err (Jwt payload k alg) body
           = (users, Inl (HTTPException 401 ''Could not validate credentials''))
     \<and> chat users key now (Jwt payload k alg) agent_run render store query
           = Inl (HTTPException 401 ''Could not validate credentials'')"
proof -
  obtain name where
    "jwt_decode (Jwt payload k alg) key [ALGORITHM] now = Inl (PyJWTError name)"
    using expired_decode [OF assms] by blast
  then have "get_current_user users key now (Jwt payload k alg) = Inl credentials_exception"
    by (simp add: get_current_user_def)
  then show ?thesis
    by (simp add: read_profile_def update_profile_def chat_def credentials_exception_def)
qed

theorem expired_token_rejected_witness:
  "map_of [(''sub'', PyStr ''a@x.com''), (''exp'', PyInt 2800)] ''exp'' = Some (PyInt 2800)
   \<and> (2800::int) < 2801
   \<and> read_profile [alice, bob] ''k'' 2801 alice_token
        = Inl (HTTPException 401 ''Could not validate credentials'')
   \<and> read_profile [alice, bob] ''k'' 2799 alice_token = Inr alice
   \<and> chat [alice, bob] ''k'' 2801 alice_token (\<lambda>prompt. Inr ''ok'') no_render default_store
        ''weather in Paris'' = Inl (HTTPException 401 ''Could not validate credentials'')"
  using expired_token_rejected [where payload = "[(''sub'', PyStr ''a@x.com''), (''exp'', PyInt 2800)]"
      and e = 2800 and now = 2801 and users = "[alice, bob]" and key = "''k''" and k = "''k''"
      and alg = "''HS256''" and agent_run = "\<lambda>prompt. Inr ''ok''" and render = no_render
      and store = default_store and query = "''weather in Paris''"]
  by (simp add: alice_token_def read_profile_def get_current_user_def ALGORITHM_def
        dict_get_def select_eq_email_def alice_def bob_def)

section \<open>Properties of the profile update\<close>

lemma update_eq_email_email: "map email (update_eq_email users e n p) = map email users"
  by (simp add: update_eq_email_def)

lemma update_eq_email_id: "map profile_id (update_eq_email users e n p) = map profile_id users"
  by (simp add: update_eq_email_def)

lemma update_eq_email_hash:
  "map hashed_password (update_eq_email users e n p) = map hashed_password users"
  by (simp add: update_eq_email_def)

lemma update_eq_email_others:
  "filter (\<lambda>row. email row \<noteq> e) (update_eq_email users e n p)
     = filter (\<lambda>row. email row \<noteq> e) users"
  by (induction users) (simp_all add: update_eq_email_def)

lemma update_profile_table:
  "fst (update_profile users key now err token body) = users
   \<or> (\<exists>cu. get_current_user users key now token = Inr cu \<and> \<not> err \<and>
        fst (update_profile users key now err token body)
          = update_eq_email users (email cu) (full_name body) (travel_preferences body))"
  by (cases "get_current_user users key now token") (simp_all add: update_profile_def Let_def)

lemma update_profile_ignores:
  "update_profile users key now err token (body\<lparr>email := e', profile_id := i'\<rparr>)
     = update_profile users key now err token body"
  by (cases "get_current_user users key now token") (simp_all add: update_profile_def)

text \<open>
  C9. A profile update leaves the email, the id and the password hash of every row as
  they were, and every row of another user untouched; when it goes through, the table is
  the old one with the name and the preferences of the request written into the rows
  of the token's user; the \<open>email\<close> and \<open>id\<close> of the request body have no effect on the
  table or the response.
\<close>

theorem update_profile_frame:
  "map email (fst (update_profile users key now err token body)) = map email users
   \<and> map profile_id (fst (update_profile users key now err token body)) = map profile_id users
   \<and> map hashed_password (fst (update_profile users key now err token body))
        = map hashed_password users
   \<and> (\<forall>cu. get_current_user users key now token = Inr cu \<longrightarrow>
         filter (\<lambda>row. email row \<noteq> email cu)
             (fst (update_profile users key now err token body))
           = filter (\<lambda>row. email row \<noteq> email cu) users)
   \<and> (\<forall>cu. get_current_user users key now token = Inr cu \<and> \<not> err \<longrightarrow>
         fst (update_profile users key now err token body)
           = update_eq_email users (email cu) (full_name body) (travel_preferences body))
   \<and> update_profile users key now err token (body\<lparr>email := e', profile_id := i'\<rparr>)
        = update_profile users key now err token body"
proof -
  let ?users' = "fst (update_profile users key now err token body)"
  have tab: "?users' = users
      \<or> (\<exists>cu. get_current_user users key now token = Inr cu \<and> \<not> err \<and>
            ?users' = update_eq_email users (email cu) (full_name body)
                        (travel_preferences body))"
    by (rule update_profile_table)
  have a: "map email ?users' = map email users"
    using tab by (auto simp: update_eq_email_email)
  have b: "map profile_id ?users' = map profile_id users"
    using tab by (auto simp: update_eq_email_id)
  have c: "map hashed_password ?users' = map hashed_password users"
    using tab by (auto simp: update_eq_email_hash)
  have d: "\<forall>cu. get_current_user users key now token = Inr cu \<longrightarrow>
         filter (\<lambda>row. email row \<noteq> email cu) ?users'
           = filter (\<lambda>row. email row \<noteq> email cu) users"
    using tab by (auto simp: update_eq_email_others)
  have e: "\<forall>cu. get_current_user users key now token = Inr cu \<and> \<not> err \<longrightarrow>
         ?users' = update_eq_email users (email cu) (full_name body) (travel_preferences body)"
    by (simp add: update_profile_def Let_def)
  show ?thesis
    using a b c d e update_profile_ignores [where users = users and key = key and now = now and err = err
      and token = token and body = body and e' = e' and i' = i'] by blast
qed

lemma alice_token_user: "get_current_user [alice, bob] ''k'' 2000 alice_token = Inr alice"
  by (simp add: alice_token_def get_current_user_def ALGORITHM_def
        dict_get_def select_eq_email_def alice_def bob_def)

theorem update_profile_frame_witness:
  "get_current_user [alice, bob] ''k'' 2000 alice_token = Inr alice
   \<and> fst (update_profile [alice, bob] ''k'' 2000 False alice_token new_profile)
        = [alice\<lparr>full_name := Some ''Al'', travel_preferences := [(''seat'', PyStr ''aisle'')]\<rparr>, bob]
   \<and> map email (fst (update_profile [alice, bob] ''k'' 2000 False alice_token new_profile))
        = [''a@x.com'', ''b@x.com'']
   \<and> filter (\<lambda>row. email row \<noteq> email alice)
          (fst (update_profile [alice, bob] ''k'' 2000 False alice_token new_profile)) = [bob]"
  using update_profile_frame [where users = "[alice, bob]" and key = "''k''" and now = 2000 and err = False
      and token = alice_token and body = new_profile and e' = "''x''" and i' = None] alice_token_user
  by (simp add: update_eq_email_def new_profile_def alice_def bob_def)

end
